theory Spec2Isabelle
  imports Main "HOL-Library.Word"
begin

unbundle bit_operations_syntax

section \<open>JavaScript numbers, 32-bit operators and typed arrays\<close>

text \<open>
  The bitwise operators of JavaScript convert their operands to 32-bit integers and
  take the shift count modulo 32. A value that is only ever the result of such an
  operator (\<open>konst\<close>, \<open>sbuf\<close>, \<open>mbuf\<close>, the elements of an \<open>Int32Array\<close>) is a
  \<open>32 word\<close>; \<open>nbuf\<close> and the loop counters are numbers that the code adds to and
  subtracts from, and are integers here.
\<close>

type_synonym u8 = "8 word"
type_synonym i32 = "32 word"

text \<open>\<open>x << k\<close>, \<open>x >> k\<close> (sign-propagating) and \<open>x >>> k\<close> (zero-fill).\<close>

definition shl :: "i32 \<Rightarrow> int \<Rightarrow> i32" where
  "shl x k = push_bit (nat (k mod 32)) x"

definition shr :: "i32 \<Rightarrow> int \<Rightarrow> i32" where
  "shr x k = signed_drop_bit (nat (k mod 32)) x"

definition ushr :: "i32 \<Rightarrow> int \<Rightarrow> i32" where
  "ushr x k = drop_bit (nat (k mod 32)) x"

text \<open>\<open>n & ~0x03\<close> and \<open>n & 0x03\<close> for a byte count \<open>n\<close>: the first is a signed
  32-bit integer, the second is in 0..3.\<close>

definition and_not3 :: "nat \<Rightarrow> int" where
  "and_not3 n = sint ((word_of_nat n :: i32) AND NOT 3)"

definition and3 :: "nat \<Rightarrow> nat" where
  "and3 n = unat ((word_of_nat n :: i32) AND 3)"

text \<open>
  A \<open>Uint8Array\<close> is an object: two parameters may be the same array. The heap maps
  a reference to the array's bytes. Reading beyond the end gives \<open>undefined\<close>, which
  every operator applied to it here turns into 0; writing beyond the end is ignored
  (as \<open>xs[i := v]\<close> is); a write keeps the low 8 bits.
\<close>

type_synonym ref = nat
type_synonym heap = "ref \<Rightarrow> u8 list"

definition ld :: "heap \<Rightarrow> ref \<Rightarrow> nat \<Rightarrow> i32" where
  "ld h a i = (if i < length (h a) then ucast (h a ! i) else 0)"

definition st :: "heap \<Rightarrow> ref \<Rightarrow> nat \<Rightarrow> i32 \<Rightarrow> heap" where
  "st h a i v = h(a := (h a)[i := ucast v])"

text \<open>Four bytes of an array into one word, as
  \<open>((b[i + 3] & 0xFF) << 24) | ((b[i + 2] & 0xFF) << 16) | ((b[i + 1] & 0xFF) << 8) | (b[i] & 0xFF)\<close>.\<close>

definition word_at :: "heap \<Rightarrow> ref \<Rightarrow> nat \<Rightarrow> i32" where
  "word_at h a i =
     shl (ld h a (i + 3) AND 0xFF) 24 OR shl (ld h a (i + 2) AND 0xFF) 16
       OR shl (ld h a (i + 1) AND 0xFF) 8 OR (ld h a i AND 0xFF)"

text \<open>A word into four bytes of an array, as
  \<open>o[i + 3] = (t >> 24) & 0xFF; o[i + 2] = (t >> 16) & 0xFF; o[i + 1] = (t >> 8) & 0xFF; o[i] = t & 0xFF\<close>.\<close>

definition put_word :: "heap \<Rightarrow> ref \<Rightarrow> nat \<Rightarrow> i32 \<Rightarrow> heap" where
  "put_word h a i t =
     (let h = st h a (i + 3) (shr t 24 AND 0xFF);
          h = st h a (i + 2) (shr t 16 AND 0xFF);
          h = st h a (i + 1) (shr t 8 AND 0xFF)
      in st h a i (t AND 0xFF))"

section \<open>Constants and the nonlinear functions\<close>

abbreviation N :: nat where "N \<equiv> 16"
abbreviation FOLD :: nat where "FOLD \<equiv> N"
abbreviation INITKONST :: i32 where "INITKONST \<equiv> 0x6996c53a"
abbreviation KEYP :: nat where "KEYP \<equiv> 13"

definition rotateLeft :: "i32 \<Rightarrow> int \<Rightarrow> i32" where
  "rotateLeft i distance = shl i distance OR ushr i (- distance)"

definition sbox :: "i32 \<Rightarrow> i32" where
  "sbox i =
     (let i = i XOR (rotateLeft i 5 OR rotateLeft i 7);
          i = i XOR (rotateLeft i 19 OR rotateLeft i 22)
      in i)"

definition sbox2 :: "i32 \<Rightarrow> i32" where
  "sbox2 i =
     (let i = i XOR (rotateLeft i 7 OR rotateLeft i 22);
          i = i XOR (rotateLeft i 5 OR rotateLeft i 19)
      in i)"

section \<open>The engine\<close>

text \<open>The fields of class \<open>Shannon\<close>. \<open>R\<close>, \<open>CRC\<close> and \<open>initR\<close> are
  \<open>Int32Array(N)\<close>: lists of length 16 in every engine (\<open>wf\<close> below).\<close>

record shannon =
  R :: "i32 list"
  CRC :: "i32 list"
  initR :: "i32 list"
  konst :: i32
  sbuf :: i32
  mbuf :: i32
  nbuf :: int

definition wf :: "shannon \<Rightarrow> bool" where
  "wf s \<longleftrightarrow> length (R s) = N \<and> length (CRC s) = N \<and> length (initR s) = N"

text \<open>\<open>new Shannon()\<close>: the arrays are zero-filled, the numbers are 0.\<close>

definition new_shannon :: shannon where
  "new_shannon =
     \<lparr>R = replicate N 0, CRC = replicate N 0, initR = replicate N 0,
      konst = 0, sbuf = 0, mbuf = 0, nbuf = 0\<rparr>"

text \<open>\<open>for (i = 1; i < N; i++) a[i - 1] = a[i]\<close>\<close>

definition shift_down :: "i32 list \<Rightarrow> i32 list" where
  "shift_down a = fold (\<lambda>i a. a[i - 1 := a ! i]) [1..<N] a"

definition cycle :: "shannon \<Rightarrow> shannon" where
  "cycle s =
     (let t = R s ! 12 XOR R s ! 13 XOR konst s;
          t = sbox t XOR rotateLeft (R s ! 0) 1;
          r = shift_down (R s);
          r = r[N - 1 := t];
          t = sbox2 (r ! 2 XOR r ! 15);
          r = r[0 := r ! 0 XOR t]
      in s\<lparr>R := r, sbuf := t XOR r ! 8 XOR r ! 12\<rparr>)"

definition crcFunc :: "i32 \<Rightarrow> shannon \<Rightarrow> shannon" where
  "crcFunc i s =
     (let t = CRC s ! 0 XOR CRC s ! 2 XOR CRC s ! 15 XOR i;
          c = shift_down (CRC s)
      in s\<lparr>CRC := c[N - 1 := t]\<rparr>)"

definition macFunc :: "i32 \<Rightarrow> shannon \<Rightarrow> shannon" where
  "macFunc i s =
     (let s = crcFunc i s
      in s\<lparr>R := (R s)[KEYP := R s ! KEYP XOR i]\<rparr>)"

definition initState :: "shannon \<Rightarrow> shannon" where
  "initState s =
     (let r = (R s)[0 := 1];
          r = r[1 := 1];
          r = fold (\<lambda>i r. r[i := r ! (i - 1) + r ! (i - 2)]) [2..<N] r
      in s\<lparr>R := r, konst := INITKONST\<rparr>)"

definition saveState :: "shannon \<Rightarrow> shannon" where
  "saveState s = s\<lparr>initR := fold (\<lambda>i a. a[i := R s ! i]) [0..<N] (initR s)\<rparr>"

definition reloadState :: "shannon \<Rightarrow> shannon" where
  "reloadState s = s\<lparr>R := fold (\<lambda>i a. a[i := initR s ! i]) [0..<N] (R s)\<rparr>"

definition genKonst :: "shannon \<Rightarrow> shannon" where
  "genKonst s = s\<lparr>konst := R s ! 0\<rparr>"

definition addKey :: "i32 \<Rightarrow> shannon \<Rightarrow> shannon" where
  "addKey k s = s\<lparr>R := (R s)[KEYP := R s ! KEYP XOR k]\<rparr>"

definition diffuse :: "shannon \<Rightarrow> shannon" where
  "diffuse s = fold (\<lambda>i s. cycle s) [0..<FOLD] s"

section \<open>Key and nonce loading\<close>

text \<open>\<open>key[i] & 0xFF\<close> for a byte array that is only read.\<close>

definition byte_at :: "u8 list \<Rightarrow> nat \<Rightarrow> i32" where
  "byte_at k i = (if i < length k then ucast (k ! i) else 0)"

definition word_of_bytes :: "u8 list \<Rightarrow> nat \<Rightarrow> i32" where
  "word_of_bytes k i =
     shl (byte_at k (i + 3) AND 0xFF) 24 OR shl (byte_at k (i + 2) AND 0xFF) 16
       OR shl (byte_at k (i + 1) AND 0xFF) 8 OR (byte_at k i AND 0xFF)"

text \<open>\<open>for (i = 0; i < (_key.length & ~0x03); i += 4) { addKey(t); cycle() }\<close>\<close>

function loadKey_words :: "u8 list \<Rightarrow> nat \<Rightarrow> shannon \<Rightarrow> nat \<times> shannon" where
  "loadKey_words k i s =
     (if int i < and_not3 (length k)
      then loadKey_words k (i + 4) (cycle (addKey (word_of_bytes k i) s))
      else (i, s))"
  by pat_completeness auto
termination
  by (relation "measure (\<lambda>(k, i, s). nat (and_not3 (length k) - int i))") auto

text \<open>\<open>for (j = 0; i < _key.length; i++) extra[j++] = _key[i]\<close>\<close>

function copy_extra :: "u8 list \<Rightarrow> nat \<Rightarrow> nat \<Rightarrow> u8 list \<Rightarrow> nat \<times> nat \<times> u8 list" where
  "copy_extra k i j extra =
     (if i < length k then copy_extra k (i + 1) (j + 1) (extra[j := k ! i])
      else (i, j, extra))"
  by pat_completeness auto
termination
  by (relation "measure (\<lambda>(k, i, j, extra). length k - i)") auto

definition loadKey :: "u8 list \<Rightarrow> shannon \<Rightarrow> shannon" where
  "loadKey k s =
     (let extra = replicate 4 0;
          (i, s) = loadKey_words k 0 s;
          s = (if i < length k
               then let (i, j, extra) = copy_extra k i 0 extra;
                        extra = fold (\<lambda>j e. e[j := 0]) [j..<4] extra
                    in cycle (addKey (word_of_bytes extra 0) s)
               else s);
          s = cycle (addKey (word_of_nat (length k)) s);
          s = s\<lparr>CRC := fold (\<lambda>i c. c[i := R s ! i]) [0..<N] (CRC s)\<rparr>;
          s = diffuse s
      in s\<lparr>R := fold (\<lambda>i r. r[i := r ! i XOR CRC s ! i]) [0..<N] (R s)\<rparr>)"

definition key :: "u8 list \<Rightarrow> shannon \<Rightarrow> shannon" where
  "key k s =
     (let s = initState s;
          s = loadKey k s;
          s = genKonst s;
          s = saveState s
      in s\<lparr>nbuf := 0\<rparr>)"

definition nonce :: "u8 list \<Rightarrow> shannon \<Rightarrow> shannon" where
  "nonce iv s =
     (let s = reloadState s;
          s = s\<lparr>konst := INITKONST\<rparr>;
          s = loadKey iv s;
          s = genKonst s
      in s\<lparr>nbuf := 0\<rparr>)"

definition nonce32 :: "i32 \<Rightarrow> shannon \<Rightarrow> shannon" where
  "nonce32 v s =
     (let b = replicate 4 (0 :: u8);
          b = b[0 := ucast (shr v 24 AND 0xFF)];
          b = b[1 := ucast (shr v 16 AND 0xFF)];
          b = b[2 := ucast (shr v 8 AND 0xFF)];
          b = b[3 := ucast (v AND 0xFF)]
      in nonce b s)"

text \<open>\<open>new Shannon(key)\<close>\<close>

definition Shannon :: "u8 list option \<Rightarrow> shannon" where
  "Shannon k = (case k of None \<Rightarrow> new_shannon | Some k \<Rightarrow> key k new_shannon)"

section \<open>The streaming transforms\<close>

subsection \<open>stream\<close>

text \<open>\<open>while (nbuf != 0 && n != 0) { output[i++] ^= sbuf & 0xFF; sbuf >>= 8; nbuf -= 8; n-- }\<close>\<close>

fun stream_bytes :: "ref \<Rightarrow> nat \<Rightarrow> nat \<Rightarrow> shannon \<times> heap \<Rightarrow> nat \<times> nat \<times> shannon \<times> heap" where
  "stream_bytes out i 0 (s, h) = (i, 0, s, h)"
| "stream_bytes out i (Suc n) (s, h) =
     (if nbuf s = 0 then (i, Suc n, s, h)
      else let h = st h out i (ld h out i XOR (sbuf s AND 0xFF));
               s = s\<lparr>sbuf := shr (sbuf s) 8\<rparr>;
               s = s\<lparr>nbuf := nbuf s - 8\<rparr>
           in stream_bytes out (i + 1) n (s, h))"

function stream_words :: "ref \<Rightarrow> int \<Rightarrow> nat \<Rightarrow> shannon \<times> heap \<Rightarrow> nat \<times> shannon \<times> heap" where
  "stream_words out j i (s, h) =
     (if int i < j
      then let s = cycle s;
               h = st h out (i + 3) (ld h out (i + 3) XOR (shr (sbuf s) 24 AND 0xFF));
               h = st h out (i + 2) (ld h out (i + 2) XOR (shr (sbuf s) 16 AND 0xFF));
               h = st h out (i + 1) (ld h out (i + 1) XOR (shr (sbuf s) 8 AND 0xFF));
               h = st h out i (ld h out i XOR (sbuf s AND 0xFF))
           in stream_words out j (i + 4) (s, h)
      else (i, s, h))"
  by pat_completeness auto
termination
  by (relation "measure (\<lambda>(out, j, i, sh). nat (j - int i))") auto

definition stream :: "ref \<Rightarrow> ref \<Rightarrow> shannon \<times> heap \<Rightarrow> shannon \<times> heap" where
  "stream buffer out sh =
     (let n = length (snd sh buffer);
          (i, n, s, h) = stream_bytes out 0 n sh;
          j = and_not3 n;
          (i, s, h) = stream_words out j i (s, h);
          n = and3 n
      in if n \<noteq> 0
         then let s = cycle s;
                  s = s\<lparr>nbuf := 32\<rparr>;
                  (i, n, s, h) = stream_bytes out i n (s, h)
              in (s, h)
         else (s, h))"

subsection \<open>macOnly\<close>

text \<open>\<open>while (nbuf != 0 && n != 0) { mbuf ^= buffer[i++] << (32 - nbuf); nbuf -= 8; n-- }\<close>\<close>

fun mac_bytes :: "ref \<Rightarrow> nat \<Rightarrow> nat \<Rightarrow> shannon \<times> heap \<Rightarrow> nat \<times> nat \<times> shannon" where
  "mac_bytes buffer i 0 (s, h) = (i, 0, s)"
| "mac_bytes buffer i (Suc n) (s, h) =
     (if nbuf s = 0 then (i, Suc n, s)
      else let s = s\<lparr>mbuf := mbuf s XOR shl (ld h buffer i) (32 - nbuf s)\<rparr>;
               s = s\<lparr>nbuf := nbuf s - 8\<rparr>
           in mac_bytes buffer (i + 1) n (s, h))"

function mac_words :: "ref \<Rightarrow> int \<Rightarrow> nat \<Rightarrow> shannon \<times> heap \<Rightarrow> nat \<times> shannon" where
  "mac_words buffer j i (s, h) =
     (if int i < j
      then let s = cycle s;
               t = word_at h buffer i;
               s = macFunc t s
           in mac_words buffer j (i + 4) (s, h)
      else (i, s))"
  by pat_completeness auto
termination
  by (relation "measure (\<lambda>(buffer, j, i, sh). nat (j - int i))") auto

text \<open>The part of \<open>macOnly\<close> after the buffered bytes.\<close>

definition mac_rest :: "ref \<Rightarrow> nat \<Rightarrow> nat \<Rightarrow> shannon \<times> heap \<Rightarrow> shannon" where
  "mac_rest buffer i n sh =
     (let j = and_not3 n;
          (i, s) = mac_words buffer j i sh;
          n = and3 n
      in if n \<noteq> 0
         then let s = cycle s;
                  s = s\<lparr>mbuf := 0\<rparr>;
                  s = s\<lparr>nbuf := 32\<rparr>;
                  (i, n, s) = mac_bytes buffer i n (s, snd sh)
              in s
         else s)"

definition macOnly :: "ref \<Rightarrow> shannon \<times> heap \<Rightarrow> shannon" where
  "macOnly buffer sh =
     (let n = length (snd sh buffer)
      in if nbuf (fst sh) \<noteq> 0
         then let (i, n, s) = mac_bytes buffer 0 n sh
              in if nbuf s \<noteq> 0 then s
                 else mac_rest buffer i n (macFunc (mbuf s) s, snd sh)
         else mac_rest buffer 0 n sh)"

subsection \<open>encrypt\<close>

text \<open>The body of both byte loops of \<open>encrypt\<close>:
  \<open>mbuf ^= (buffer[i] & 0xFF) << (32 - nbuf); output[i] ^= (sbuf >> (32 - nbuf)) & 0xFF;
  i++; nbuf -= 8; n--\<close>, run \<open>while (nbuf != 0 && n != 0)\<close>.\<close>

fun encrypt_bytes :: "ref \<Rightarrow> ref \<Rightarrow> nat \<Rightarrow> nat \<Rightarrow> shannon \<times> heap \<Rightarrow> nat \<times> nat \<times> shannon \<times> heap" where
  "encrypt_bytes buffer out i 0 (s, h) = (i, 0, s, h)"
| "encrypt_bytes buffer out i (Suc n) (s, h) =
     (if nbuf s = 0 then (i, Suc n, s, h)
      else let s = s\<lparr>mbuf := mbuf s XOR shl (ld h buffer i AND 0xFF) (32 - nbuf s)\<rparr>;
               h = st h out i (ld h out i XOR (shr (sbuf s) (32 - nbuf s) AND 0xFF));
               s = s\<lparr>nbuf := nbuf s - 8\<rparr>
           in encrypt_bytes buffer out (i + 1) n (s, h))"

function encrypt_words :: "ref \<Rightarrow> ref \<Rightarrow> int \<Rightarrow> nat \<Rightarrow> shannon \<times> heap \<Rightarrow> nat \<times> shannon \<times> heap" where
  "encrypt_words buffer out j i (s, h) =
     (if int i < j
      then let s = cycle s;
               t = word_at h buffer i;
               s = macFunc t s;
               t = t XOR sbuf s;
               h = put_word h out i t
           in encrypt_words buffer out j (i + 4) (s, h)
      else (i, s, h))"
  by pat_completeness auto
termination
  by (relation "measure (\<lambda>(buffer, out, j, i, sh). nat (j - int i))") auto

text \<open>The part of \<open>encrypt\<close> after the buffered bytes.\<close>

definition encrypt_rest :: "ref \<Rightarrow> ref \<Rightarrow> nat \<Rightarrow> nat \<Rightarrow> shannon \<times> heap \<Rightarrow> shannon \<times> heap" where
  "encrypt_rest buffer out i n sh =
     (let j = and_not3 n;
          (i, s, h) = encrypt_words buffer out j i sh;
          n = and3 n
      in if n \<noteq> 0
         then let s = cycle s;
                  s = s\<lparr>mbuf := 0\<rparr>;
                  s = s\<lparr>nbuf := 32\<rparr>;
                  (i, n, s, h) = encrypt_bytes buffer out i n (s, h)
              in (s, h)
         else (s, h))"

text \<open>\<open>encrypt(buffer, output = buffer)\<close>: the in-place call is \<open>encrypt a a\<close>.
  The returned array is \<open>out\<close>.\<close>

definition encrypt :: "ref \<Rightarrow> ref \<Rightarrow> shannon \<times> heap \<Rightarrow> shannon \<times> heap" where
  "encrypt buffer out sh =
     (let n = length (snd sh buffer)
      in if nbuf (fst sh) \<noteq> 0
         then let (i, n, s, h) = encrypt_bytes buffer out 0 n sh
              in if nbuf s \<noteq> 0 then (s, h)
                 else encrypt_rest buffer out i n (macFunc (mbuf s) s, h)
         else encrypt_rest buffer out 0 n sh)"

subsection \<open>decrypt\<close>

text \<open>The byte loops of \<open>decrypt\<close>. The loop for buffered bytes runs
  \<open>output[i] ^= (sbuf >> (32 - nbuf)) & 0xFF; mbuf ^= (buffer[i] & 0xFF) << (32 - nbuf)\<close>,
  the loop for trailing bytes runs the same with \<open>buffer[i] ^= ...\<close> as its first
  statement: \<open>tgt\<close> is the array that statement writes.\<close>

fun decrypt_bytes :: "ref \<Rightarrow> ref \<Rightarrow> nat \<Rightarrow> nat \<Rightarrow> shannon \<times> heap \<Rightarrow> nat \<times> nat \<times> shannon \<times> heap" where
  "decrypt_bytes buffer tgt i 0 (s, h) = (i, 0, s, h)"
| "decrypt_bytes buffer tgt i (Suc n) (s, h) =
     (if nbuf s = 0 then (i, Suc n, s, h)
      else let h = st h tgt i (ld h tgt i XOR (shr (sbuf s) (32 - nbuf s) AND 0xFF));
               s = s\<lparr>mbuf := mbuf s XOR shl (ld h buffer i AND 0xFF) (32 - nbuf s)\<rparr>;
               s = s\<lparr>nbuf := nbuf s - 8\<rparr>
           in decrypt_bytes buffer tgt (i + 1) n (s, h))"

function decrypt_words :: "ref \<Rightarrow> ref \<Rightarrow> int \<Rightarrow> nat \<Rightarrow> shannon \<times> heap \<Rightarrow> nat \<times> shannon \<times> heap" where
  "decrypt_words buffer out j i (s, h) =
     (if int i < j
      then let s = cycle s;
               t = word_at h buffer i;
               t = t XOR sbuf s;
               s = macFunc t s;
               h = put_word h out i t
           in decrypt_words buffer out j (i + 4) (s, h)
      else (i, s, h))"
  by pat_completeness auto
termination
  by (relation "measure (\<lambda>(buffer, out, j, i, sh). nat (j - int i))") auto

definition decrypt_rest :: "ref \<Rightarrow> ref \<Rightarrow> nat \<Rightarrow> nat \<Rightarrow> shannon \<times> heap \<Rightarrow> shannon \<times> heap" where
  "decrypt_rest buffer out i n sh =
     (let j = and_not3 n;
          (i, s, h) = decrypt_words buffer out j i sh;
          n = and3 n
      in if n \<noteq> 0
         then let s = cycle s;
                  s = s\<lparr>mbuf := 0\<rparr>;
                  s = s\<lparr>nbuf := 32\<rparr>;
                  (i, n, s, h) = decrypt_bytes buffer buffer i n (s, h)
              in (s, h)
         else (s, h))"

definition decrypt :: "ref \<Rightarrow> ref \<Rightarrow> shannon \<times> heap \<Rightarrow> shannon \<times> heap" where
  "decrypt buffer out sh =
     (let n = length (snd sh buffer)
      in if nbuf (fst sh) \<noteq> 0
         then let (i, n, s, h) = decrypt_bytes buffer out 0 n sh
              in if nbuf s \<noteq> 0 then (s, h)
                 else decrypt_rest buffer out i n (macFunc (mbuf s) s, h)
         else decrypt_rest buffer out 0 n sh)"

section \<open>Finalization\<close>

text \<open>The output loop of \<open>finish\<close>:
  \<open>while (n > 0) { cycle(); if (n >= 4) { ...; n -= 4; i += 4 } else
  { for (j = 0; j < n; j++) output[i + j] = (sbuf >> (i * 8)) & 0xFF; break } }\<close>\<close>

function finish_out :: "ref \<Rightarrow> nat \<Rightarrow> nat \<Rightarrow> shannon \<times> heap \<Rightarrow> shannon \<times> heap" where
  "finish_out out i n (s, h) =
     (if n > 0
      then let s = cycle s
           in if n \<ge> 4
              then finish_out out (i + 4) (n - 4) (s, put_word h out i (sbuf s))
              else (s, fold (\<lambda>j h. st h out (i + j) (shr (sbuf s) (int i * 8) AND 0xFF)) [0..<n] h)
      else (s, h))"
  by pat_completeness auto
termination
  by (relation "measure (\<lambda>(out, i, n, sh). n)") auto

text \<open>\<open>finish(output)\<close> with an array; the returned array is \<open>out\<close>.\<close>

definition finish :: "ref \<Rightarrow> shannon \<times> heap \<Rightarrow> shannon \<times> heap" where
  "finish out sh =
     (let s = fst sh;
          n = length (snd sh out);
          s = (if nbuf s \<noteq> 0 then macFunc (mbuf s) s else s);
          s = cycle s;
          s = addKey (INITKONST XOR shl (word_of_int (nbuf s)) 3) s;
          s = s\<lparr>nbuf := 0\<rparr>;
          s = s\<lparr>R := fold (\<lambda>j r. r[j := r ! j XOR CRC s ! j]) [0..<N] (R s)\<rparr>;
          s = diffuse s
      in finish_out out 0 n (s, snd sh))"


section \<open>The transforms byte by byte\<close>


definition dec_byte :: "shannon \<Rightarrow> u8 \<Rightarrow> shannon \<times> u8" where
  "dec_byte s c =
     (let p = c XOR ucast (shr (sbuf s) (32 - nbuf s))
      in (s\<lparr>mbuf := mbuf s XOR shl (ucast p) (32 - nbuf s), nbuf := nbuf s - 8\<rparr>, p))"

definition start :: "shannon \<Rightarrow> shannon" where
  "start s = (if nbuf s = 0 then (cycle s)\<lparr>mbuf := 0, nbuf := 32\<rparr> else s)"

definition flush :: "shannon \<Rightarrow> shannon" where
  "flush s = (if nbuf s = 0 then macFunc (mbuf s) s else s)"

text \<open>One byte of a transform whose loop body is \<open>f\<close>, and a sequence of bytes.\<close>

definition step :: "(shannon \<Rightarrow> u8 \<Rightarrow> shannon \<times> u8) \<Rightarrow> shannon \<Rightarrow> u8 \<Rightarrow> shannon \<times> u8" where
  "step f s b = (let (s, c) = f (start s) b in (flush s, c))"

fun run :: "(shannon \<Rightarrow> u8 \<Rightarrow> shannon \<times> u8) \<Rightarrow> shannon \<Rightarrow> u8 list \<Rightarrow> shannon \<times> u8 list" where
  "run f s [] = (s, [])"
| "run f s (b # bs) =
     (let (s, c) = step f s b; (s, cs) = run f s bs in (s, c # cs))"


text \<open>Between words (\<open>nbuf = 0\<close>) the content of \<open>mbuf\<close> is dead: the next use of it
  is after \<open>mbuf = 0\<close>. \<open>norm\<close> forgets it there.\<close>

definition norm :: "shannon \<Rightarrow> shannon" where
  "norm s = (if nbuf s = 0 then s\<lparr>mbuf := 0\<rparr> else s)"

section \<open>Sequences of calls\<close>




section \<open>Bytes of a word\<close>

text \<open>Byte \<open>j\<close> of a word: \<open>j = 0\<close> is the least significant byte.\<close>

definition byte_of :: "i32 \<Rightarrow> nat \<Rightarrow> u8" where
  "byte_of w j = ucast (drop_bit (8 * j) w)"

section \<open>Basic facts\<close>

declare loadKey_words.simps [simp del] copy_extra.simps [simp del] stream_words.simps [simp del]
  mac_words.simps [simp del] encrypt_words.simps [simp del] decrypt_words.simps [simp del]
  finish_out.simps [simp del]

lemma and_not3_0: "and_not3 0 = 0"
  by (simp add: and_not3_def)

lemma and3_0: "and3 0 = 0"
  by (simp add: and3_def)

lemma list16:
  "length (a :: 'a list) = 16 \<Longrightarrow> \<exists>a0 a1 a2 a3 a4 a5 a6 a7 a8 a9 a10 a11 a12 a13 a14 a15.
     a = [a0,a1,a2,a3,a4,a5,a6,a7,a8,a9,a10,a11,a12,a13,a14,a15]"
  by (simp add: eval_nat_numeral length_Suc_conv) blast

lemma shift_down_16: "length a = 16 \<Longrightarrow> shift_down a = tl a @ [last a]"
  by (drule list16) (auto simp: shift_down_def upt_rec)

lemma length_fold_update: "length (fold (\<lambda>i r. r[i := g i r]) xs r) = length r"
  by (induction xs arbitrary: r) auto

lemma length_R_initState: "length (R (initState s)) = length (R s)"
proof -
  have a: "R (s\<lparr>R := r, konst := k\<rparr>) = r" for r k by simp
  show ?thesis unfolding initState_def Let_def a length_fold_update by simp
qed

text \<open>\<open>rotateLeft\<close> is the rotation of a 32-bit word.\<close>

lemma rotateLeft_rotl:
  assumes "0 < d" "d < 32"
  shows "rotateLeft i (int d) = word_rotl d i"
proof -
  have a: "nat (int d mod 32) = d" using assms by simp
  have b: "nat (- int d mod 32) = 32 - d"
    using assms by (simp add: zmod_zminus1_eq_if nat_diff_distrib)
  show ?thesis unfolding rotateLeft_def shl_def ushr_def a b
  proof (rule bit_word_eqI)
    fix n assume "n < LENGTH(32)"
    then have n: "n < 32" by simp
    have c: "(n + 32 - d) mod 32 = (if d \<le> n then n - d else n + 32 - d)"
      using assms n by (auto simp: mod_if le_mod_geq)
    have e: "32 - d + n = n + 32 - d" using assms by simp
    have f: "\<not> bit i (n + 32 - d)" if "d \<le> n"
      using that bit_imp_le_length[of i "n + 32 - d"] by auto
    show "bit (push_bit d i OR drop_bit (32 - d) i) n = bit (word_rotl d i) n"
      using assms n f by (auto simp add: bit_simps c e)
  qed
qed

section \<open>The register cycle\<close>

text \<open>
  Claim C6. One call to \<open>cycle\<close> computes \<open>t = R[12] XOR R[13] XOR konst\<close>, replaces it
  with \<open>sbox t XOR rotl (R[0], 1)\<close>, moves every word down one slot with \<open>t\<close> the new
  \<open>R[15]\<close>, computes \<open>u = sbox2 (R[2] XOR R[15])\<close> on the shifted register, XORs \<open>u\<close> into
  \<open>R[0]\<close> and sets \<open>sbuf = u XOR R[8] XOR R[12]\<close>; nothing else changes. \<open>sbox\<close> uses
  the rotation pairs 5, 7 and then 19, 22, \<open>sbox2\<close> the pairs 7, 22 and then 5, 19, on
  32-bit words.
\<close>

theorem cycle_spec:
  assumes "length (R s) = N"
  shows "(let t = R s ! 12 XOR R s ! 13 XOR konst s;
              t = sbox t XOR word_rotl 1 (R s ! 0);
              r = tl (R s) @ [t];
              u = sbox2 (r ! 2 XOR r ! 15)
          in cycle s = s\<lparr>R := r[0 := r ! 0 XOR u], sbuf := u XOR r ! 8 XOR r ! 12\<rparr>)
       \<and> sbox x = (let x = x XOR (word_rotl 5 x OR word_rotl 7 x)
                   in x XOR (word_rotl 19 x OR word_rotl 22 x))
       \<and> sbox2 x = (let x = x XOR (word_rotl 7 x OR word_rotl 22 x)
                    in x XOR (word_rotl 5 x OR word_rotl 19 x))"
proof (intro conjI)
  show "let t = R s ! 12 XOR R s ! 13 XOR konst s;
            t = sbox t XOR word_rotl 1 (R s ! 0);
            r = tl (R s) @ [t];
            u = sbox2 (r ! 2 XOR r ! 15)
        in cycle s = s\<lparr>R := r[0 := r ! 0 XOR u], sbuf := u XOR r ! 8 XOR r ! 12\<rparr>"
    using list16[OF assms] rotateLeft_rotl[of 1]
    by (auto simp add: cycle_def Let_def shift_down_def upt_rec)
  show "sbox x = (let x = x XOR (word_rotl 5 x OR word_rotl 7 x)
                  in x XOR (word_rotl 19 x OR word_rotl 22 x))"
    using rotateLeft_rotl[of 5] rotateLeft_rotl[of 7] rotateLeft_rotl[of 19]
      rotateLeft_rotl[of 22]
    by (simp add: sbox_def Let_def)
  show "sbox2 x = (let x = x XOR (word_rotl 7 x OR word_rotl 22 x)
                   in x XOR (word_rotl 5 x OR word_rotl 19 x))"
    using rotateLeft_rotl[of 5] rotateLeft_rotl[of 7] rotateLeft_rotl[of 19]
      rotateLeft_rotl[of 22]
    by (simp add: sbox2_def Let_def)
qed

theorem cycle_spec_witness:
  "length (R (initState new_shannon)) = N \<and>
   ((let t = R (initState new_shannon) ! 12 XOR R (initState new_shannon) ! 13
               XOR konst (initState new_shannon);
         t = sbox t XOR word_rotl 1 (R (initState new_shannon) ! 0);
         r = tl (R (initState new_shannon)) @ [t];
         u = sbox2 (r ! 2 XOR r ! 15)
     in cycle (initState new_shannon) =
        (initState new_shannon)\<lparr>R := r[0 := r ! 0 XOR u], sbuf := u XOR r ! 8 XOR r ! 12\<rparr>)
    \<and> sbox 1 = (let x = 1 XOR (word_rotl 5 1 OR word_rotl 7 1)
                 in x XOR (word_rotl 19 x OR word_rotl 22 x))
    \<and> sbox2 1 = (let x = 1 XOR (word_rotl 7 1 OR word_rotl 22 1)
                  in x XOR (word_rotl 5 x OR word_rotl 19 x)))"
proof -
  have len: "length (R (initState new_shannon)) = N"
    by (simp add: length_R_initState new_shannon_def)
  show ?thesis
    by (rule conjI[OF len cycle_spec[OF len, of 1]])
qed

section \<open>Empty input\<close>

text \<open>
  Claim C10. \<open>stream\<close>, \<open>macOnly\<close>, \<open>encrypt\<close> and \<open>decrypt\<close> called with an input of
  length zero leave every field of the engine as it was, also when \<open>nbuf\<close> is not zero,
  and leave every array, the output among them, unmodified.
\<close>

theorem empty_input_noop:
  "h buffer = [] \<Longrightarrow>
     stream buffer out (s, h) = (s, h) \<and> macOnly buffer (s, h) = s \<and>
     encrypt buffer out (s, h) = (s, h) \<and> decrypt buffer out (s, h) = (s, h)"
  by (simp add: stream_def macOnly_def mac_rest_def encrypt_def encrypt_rest_def
      decrypt_def decrypt_rest_def and_not3_0 and3_0 stream_words.simps mac_words.simps
      encrypt_words.simps decrypt_words.simps)

theorem empty_input_noop_witness:
  "((\<lambda>a. []) :: heap) 0 = [] \<and>
   stream 0 1 (new_shannon\<lparr>nbuf := 8\<rparr>, \<lambda>a. []) = (new_shannon\<lparr>nbuf := 8\<rparr>, \<lambda>a. []) \<and>
   macOnly 0 (new_shannon\<lparr>nbuf := 8\<rparr>, \<lambda>a. []) = new_shannon\<lparr>nbuf := 8\<rparr> \<and>
   encrypt 0 1 (new_shannon\<lparr>nbuf := 8\<rparr>, \<lambda>a. []) = (new_shannon\<lparr>nbuf := 8\<rparr>, \<lambda>a. []) \<and>
   decrypt 0 1 (new_shannon\<lparr>nbuf := 8\<rparr>, \<lambda>a. []) = (new_shannon\<lparr>nbuf := 8\<rparr>, \<lambda>a. [])"
proof -
  have e: "((\<lambda>a. []) :: heap) 0 = []" by simp
  show ?thesis
    by (rule conjI[OF e empty_input_noop[OF e]])
qed

section \<open>nonce32\<close>

lemma ff_mask: "(0xFF :: i32) = mask 8"
  by (simp add: mask_eq_exp_minus_1)

lemma ucast_and_ff: "(ucast (t AND 0xFF) :: u8) = byte_of t 0"
  unfolding byte_of_def ff_mask
  by (rule bit_word_eqI) (auto simp add: bit_simps)

lemma byte_of_shr:
  "byte_of (shr t 8) 0 = byte_of t 1"
  "byte_of (shr t 16) 0 = byte_of t 2"
  "byte_of (shr t 24) 0 = byte_of t 3"
  unfolding shr_def byte_of_def
  by (simp_all; rule bit_word_eqI; auto simp add: bit_simps)+

lemma repl4: "replicate 4 x = [x, x, x, x]"
  by (simp add: numeral_eq_Suc)

lemma nonce32_bytes: "nonce32 v s = nonce [byte_of v 3, byte_of v 2, byte_of v 1, byte_of v 0] s"
  by (simp add: nonce32_def repl4 Let_def ucast_and_ff byte_of_shr)

lemma and_not3_4: "and_not3 4 = 4"
  by (simp add: and_not3_def)

lemma loadKey_words_4:
  "length k = 4 \<Longrightarrow> loadKey_words k 0 s = (4, cycle (addKey (word_of_bytes k 0) s))"
  by (simp add: loadKey_words.simps[of k 0] loadKey_words.simps[of k 4] and_not3_4)

lemma byte_of_word_of_bytes:
  "byte_of (word_of_bytes [b0, b1, b2, b3] 0) 0 = b0"
  "byte_of (word_of_bytes [b0, b1, b2, b3] 0) 1 = b1"
  "byte_of (word_of_bytes [b0, b1, b2, b3] 0) 2 = b2"
  "byte_of (word_of_bytes [b0, b1, b2, b3] 0) 3 = b3"
  unfolding byte_of_def word_of_bytes_def byte_at_def shl_def ff_mask
  by (simp_all; rule bit_word_eqI; auto simp add: bit_simps)+


lemma loadKey_4:
  assumes "length k = 4"
  shows "loadKey k s =
     (let s1 = cycle (addKey (word_of_bytes k 0) s);
          s2 = cycle (addKey 4 s1);
          s3 = s2\<lparr>CRC := fold (\<lambda>i c. c[i := R s2 ! i]) [0..<N] (CRC s2)\<rparr>;
          s4 = diffuse s3
      in s4\<lparr>R := fold (\<lambda>i r. r[i := r ! i XOR CRC s4 ! i]) [0..<N] (R s4)\<rparr>)"
  unfolding loadKey_def loadKey_words_4[OF assms] Let_def prod.case
  using assms by simp

text \<open>
  Claim C9. \<open>nonce32 v\<close> is \<open>nonce\<close> called with the four bytes of \<open>v\<close>, most
  significant first, and that call is: reload the saved register, set \<open>konst\<close> to
  \<open>INITKONST\<close>, XOR the word \<open>w\<close> that \<open>loadKey\<close> assembles from the four bytes (first
  byte least significant) into \<open>R[13]\<close>, cycle, XOR the length 4 into \<open>R[13]\<close>, cycle,
  copy \<open>R\<close> to \<open>CRC\<close>, diffuse, XOR the copy back, set \<open>konst\<close> to \<open>R[0]\<close> and
  \<open>nbuf\<close> to 0. Byte \<open>j\<close> of \<open>w\<close> is byte \<open>3 - j\<close> of \<open>v\<close>: the word XORed into
  \<open>R[13]\<close> is \<open>v\<close> with its bytes reversed.
\<close>

theorem nonce32_spec:
  "(let b = [byte_of v 3, byte_of v 2, byte_of v 1, byte_of v 0];
        w = word_of_bytes b 0;
        s0 = (reloadState s)\<lparr>konst := INITKONST\<rparr>;
        s1 = cycle (s0\<lparr>R := (R s0)[13 := R s0 ! 13 XOR w]\<rparr>);
        s2 = cycle (s1\<lparr>R := (R s1)[13 := R s1 ! 13 XOR 4]\<rparr>);
        s3 = s2\<lparr>CRC := fold (\<lambda>i c. c[i := R s2 ! i]) [0..<N] (CRC s2)\<rparr>;
        s4 = diffuse s3;
        s5 = s4\<lparr>R := fold (\<lambda>i r. r[i := r ! i XOR CRC s4 ! i]) [0..<N] (R s4)\<rparr>
    in nonce32 v s = nonce b s
       \<and> nonce32 v s = s5\<lparr>konst := R s5 ! 0, nbuf := 0\<rparr>
       \<and> byte_of w 0 = byte_of v 3 \<and> byte_of w 1 = byte_of v 2
       \<and> byte_of w 2 = byte_of v 1 \<and> byte_of w 3 = byte_of v 0)"
proof -
  let ?b = "[byte_of v 3, byte_of v 2, byte_of v 1, byte_of v 0]"
  have len: "length ?b = 4" by simp
  have a: "nonce32 v s = nonce ?b s" by (rule nonce32_bytes)
  have b: "nonce ?b s =
    (let w = word_of_bytes ?b 0;
        s0 = (reloadState s)\<lparr>konst := INITKONST\<rparr>;
        s1 = cycle (s0\<lparr>R := (R s0)[13 := R s0 ! 13 XOR w]\<rparr>);
        s2 = cycle (s1\<lparr>R := (R s1)[13 := R s1 ! 13 XOR 4]\<rparr>);
        s3 = s2\<lparr>CRC := fold (\<lambda>i c. c[i := R s2 ! i]) [0..<N] (CRC s2)\<rparr>;
        s4 = diffuse s3;
        s5 = s4\<lparr>R := fold (\<lambda>i r. r[i := r ! i XOR CRC s4 ! i]) [0..<N] (R s4)\<rparr>
    in s5\<lparr>konst := R s5 ! 0, nbuf := 0\<rparr>)"
    unfolding nonce_def loadKey_4[OF len] genKonst_def addKey_def Let_def ..
  show ?thesis
    unfolding Let_def a using b byte_of_word_of_bytes[of "byte_of v 3" "byte_of v 2" "byte_of v 1" "byte_of v 0"]
    unfolding Let_def by (intro conjI) simp_all
qed

section \<open>Evaluation on explicit engines\<close>

text \<open>
  The engine's functions on a register written out as its 16 words. Results of the word
  operations are cut to 32 bits as they are computed (\<open>n32\<close>), so that the numerals
  stay small.
\<close>

lemma list_update_Cons_numeral: "(x # xs)[numeral k := y] = x # xs[pred_numeral k := y]"
  by (simp add: numeral_eq_Suc)

lemma replicate_numeral: "replicate (numeral k) x = x # replicate (pred_numeral k) x"
  by (simp add: numeral_eq_Suc)

lemma shift_down_eq: "shift_down [r0,r1,r2,r3,r4,r5,r6,r7,r8,r9,r10,r11,r12,r13,r14,r15] = [r1,r2,r3,r4,r5,r6,r7,r8,r9,r10,r11,r12,r13,r14,r15,r15]"
  by (simp add: shift_down_def upt_rec)

lemma cycle_eq: "cycle \<lparr>R = [r0,r1,r2,r3,r4,r5,r6,r7,r8,r9,r10,r11,r12,r13,r14,r15], CRC = c, initR = ir, konst = k, sbuf = sb, mbuf = mb, nbuf = nb\<rparr> =
   (let t = sbox (r12 XOR r13 XOR k) XOR rotateLeft r0 1;
        u = sbox2 (r3 XOR t)
    in \<lparr>R = [r1 XOR u,r2,r3,r4,r5,r6,r7,r8,r9,r10,r11,r12,r13,r14,r15,t], CRC = c, initR = ir, konst = k, sbuf = u XOR r9 XOR r13, mbuf = mb, nbuf = nb\<rparr>)"
  by (simp add: cycle_def shift_down_eq Let_def)

lemma macFunc_eq: "macFunc i \<lparr>R = [r0,r1,r2,r3,r4,r5,r6,r7,r8,r9,r10,r11,r12,r13,r14,r15], CRC = [c0,c1,c2,c3,c4,c5,c6,c7,c8,c9,c10,c11,c12,c13,c14,c15], initR = ir, konst = k, sbuf = sb, mbuf = mb, nbuf = nb\<rparr> =
   \<lparr>R = [r0,r1,r2,r3,r4,r5,r6,r7,r8,r9,r10,r11,r12,r13 XOR i,r14,r15], CRC = [c1,c2,c3,c4,c5,c6,c7,c8,c9,c10,c11,c12,c13,c14,c15,c0 XOR c2 XOR c15 XOR i], initR = ir, konst = k, sbuf = sb, mbuf = mb, nbuf = nb\<rparr>"
  by (simp add: macFunc_def crcFunc_def shift_down_eq Let_def)

lemma addKey_eq: "addKey i \<lparr>R = [r0,r1,r2,r3,r4,r5,r6,r7,r8,r9,r10,r11,r12,r13,r14,r15], CRC = c, initR = ir, konst = k, sbuf = sb, mbuf = mb, nbuf = nb\<rparr> =
   \<lparr>R = [r0,r1,r2,r3,r4,r5,r6,r7,r8,r9,r10,r11,r12,r13 XOR i,r14,r15], CRC = c, initR = ir, konst = k, sbuf = sb, mbuf = mb, nbuf = nb\<rparr>"
  by (simp add: addKey_def)

lemma saveState_eq: "saveState \<lparr>R = [r0,r1,r2,r3,r4,r5,r6,r7,r8,r9,r10,r11,r12,r13,r14,r15], CRC = c, initR = [q0,q1,q2,q3,q4,q5,q6,q7,q8,q9,q10,q11,q12,q13,q14,q15], konst = k, sbuf = sb, mbuf = mb, nbuf = nb\<rparr> = \<lparr>R = [r0,r1,r2,r3,r4,r5,r6,r7,r8,r9,r10,r11,r12,r13,r14,r15], CRC = c, initR = [r0,r1,r2,r3,r4,r5,r6,r7,r8,r9,r10,r11,r12,r13,r14,r15], konst = k, sbuf = sb, mbuf = mb, nbuf = nb\<rparr>"
  by (simp add: saveState_def upt_rec)

lemma xor_fold_eq: "fold (\<lambda>i r. r[i := r ! i XOR [c0,c1,c2,c3,c4,c5,c6,c7,c8,c9,c10,c11,c12,c13,c14,c15] ! i]) [0..<N] [r0,r1,r2,r3,r4,r5,r6,r7,r8,r9,r10,r11,r12,r13,r14,r15] = [r0 XOR c0,r1 XOR c1,r2 XOR c2,r3 XOR c3,r4 XOR c4,r5 XOR c5,r6 XOR c6,r7 XOR c7,r8 XOR c8,r9 XOR c9,r10 XOR c10,r11 XOR c11,r12 XOR c12,r13 XOR c13,r14 XOR c14,r15 XOR c15]"
  by (simp add: upt_rec)

lemma copy_fold_eq: "fold (\<lambda>i c. c[i := [r0,r1,r2,r3,r4,r5,r6,r7,r8,r9,r10,r11,r12,r13,r14,r15] ! i]) [0..<N] [c0,c1,c2,c3,c4,c5,c6,c7,c8,c9,c10,c11,c12,c13,c14,c15] = [r0,r1,r2,r3,r4,r5,r6,r7,r8,r9,r10,r11,r12,r13,r14,r15]"
  by (simp add: upt_rec)

lemma n32: "(x :: i32) AND 0xFFFFFFFF = x"
proof -
  have a: "(0xFFFFFFFF :: i32) = - 1" by simp
  show ?thesis unfolding a by (rule bit.conj_one_right)
qed

lemma rotateLeft_ev: "rotateLeft i d = (shl i d OR ushr i (- d)) AND 0xFFFFFFFF"
  by (simp only: n32 rotateLeft_def)

lemma sbox_ev: "sbox i =
     (let i = (i XOR (rotateLeft i 5 OR rotateLeft i 7)) AND 0xFFFFFFFF;
          i = (i XOR (rotateLeft i 19 OR rotateLeft i 22)) AND 0xFFFFFFFF
      in i)"
  by (simp only: n32 sbox_def)

lemma sbox2_ev: "sbox2 i =
     (let i = (i XOR (rotateLeft i 7 OR rotateLeft i 22)) AND 0xFFFFFFFF;
          i = (i XOR (rotateLeft i 5 OR rotateLeft i 19)) AND 0xFFFFFFFF
      in i)"
  by (simp only: n32 sbox2_def)

lemma encrypt_bytes_numeral:
  "encrypt_bytes buffer out i (numeral k) (s, h) =
     (if nbuf s = 0 then (i, numeral k, s, h)
      else let s = s\<lparr>mbuf := mbuf s XOR shl (ld h buffer i AND 0xFF) (32 - nbuf s)\<rparr>;
               h = st h out i (ld h out i XOR (shr (sbuf s) (32 - nbuf s) AND 0xFF));
               s = s\<lparr>nbuf := nbuf s - 8\<rparr>
           in encrypt_bytes buffer out (i + 1) (pred_numeral k) (s, h))"
  by (simp add: numeral_eq_Suc)

lemma decrypt_bytes_numeral:
  "decrypt_bytes buffer tgt i (numeral k) (s, h) =
     (if nbuf s = 0 then (i, numeral k, s, h)
      else let h = st h tgt i (ld h tgt i XOR (shr (sbuf s) (32 - nbuf s) AND 0xFF));
               s = s\<lparr>mbuf := mbuf s XOR shl (ld h buffer i AND 0xFF) (32 - nbuf s)\<rparr>;
               s = s\<lparr>nbuf := nbuf s - 8\<rparr>
           in decrypt_bytes buffer tgt (i + 1) (pred_numeral k) (s, h))"
  by (simp add: numeral_eq_Suc)

lemma upt_2_4: "[2..<4] = [2, 3 :: nat]"
  by (simp add: upt_rec)

lemma upt_0_3: "[0..<3] = [0, 1, 2 :: nat]"
  by (simp add: upt_rec)

lemmas ev = list_update_Cons_numeral cycle_eq macFunc_eq addKey_eq saveState_eq xor_fold_eq copy_fold_eq
  sbox_ev sbox2_ev rotateLeft_ev shl_def ushr_def shr_def

section \<open>Test vector 1\<close>

text \<open>The steps of \<open>new Shannon(key)\<close>, \<open>encrypt\<close> and \<open>finish\<close> on the key
  \<open>65 87 d8 8f 6c 32 9d 8a e4 6b\<close> and the plaintext \<open>Hello World\<close>.\<close>

lemma vec1_initState:
  "initState new_shannon = \<lparr>R = [1, 1, 2, 3, 5, 8, 13, 21, 34, 55, 89, 144, 233, 377, 610,
    987], CRC = [0, 0, 0, 0, 0, 0, 0, 0, 0, 0, 0, 0, 0, 0, 0, 0], initR = [0, 0, 0, 0, 0, 0, 0,
    0, 0, 0, 0, 0, 0, 0, 0, 0], konst = 1771488570, sbuf = 0, mbuf = 0, nbuf = 0\<rparr>"
  by (simp add: initState_def new_shannon_def replicate_numeral list_update_Cons_numeral upt_rec Let_def cong: let_weak_cong)

lemma vec1_loadKey_words:
  "loadKey_words [0x65, 0x87, 0xd8, 0x8f, 0x6c, 0x32, 0x9d, 0x8a, 0xe4, 0x6b] 0 \<lparr>R = [1, 1,
    2, 3, 5, 8, 13, 21, 34, 55, 89, 144, 233, 377, 610, 987], CRC = [0, 0, 0, 0, 0, 0, 0, 0, 0,
    0, 0, 0, 0, 0, 0, 0], initR = [0, 0, 0, 0, 0, 0, 0, 0, 0, 0, 0, 0, 0, 0, 0, 0],
    konst = 1771488570, sbuf = 0, mbuf = 0, nbuf = 0\<rparr> = (8, \<lparr>R = [989449687, 3, 5,
    8, 13, 21, 34, 55, 89, 144, 233, 2413331996, 2325557262, 987, 3827683789, 4075225062],
    CRC = [0, 0, 0, 0, 0, 0, 0, 0, 0, 0, 0, 0, 0, 0, 0, 0], initR = [0, 0, 0, 0, 0, 0, 0, 0, 0,
    0, 0, 0, 0, 0, 0, 0], konst = 1771488570, sbuf = 2959408514, mbuf = 0, nbuf = 0\<rparr>)"
  by (simp add: loadKey_words.simps and_not3_def word_of_bytes_def byte_at_def ev)

lemma vec1_copy_extra:
  "copy_extra [0x65, 0x87, 0xd8, 0x8f, 0x6c, 0x32, 0x9d, 0x8a, 0xe4, 0x6b] 8 0 [0, 0, 0, 0] = (10,
    2, [0xe4, 0x6b, 0, 0])"
  by (simp add: copy_extra.simps ev)

lemma vec1_loadKey_diffuse:
  "diffuse \<lparr>R = [1547079618, 8, 13, 21, 34, 55, 89, 144, 233, 2413331996, 2325557262,
    26687, 3827683783, 4075225062, 2360745207, 249442105], CRC = [1547079618, 8, 13, 21, 34, 55,
    89, 144, 233, 2413331996, 2325557262, 26687, 3827683783, 4075225062, 2360745207, 249442105],
    initR = [0, 0, 0, 0, 0, 0, 0, 0, 0, 0, 0, 0, 0, 0, 0, 0], konst = 1771488570,
    sbuf = 3088277225, mbuf = 0, nbuf = 0\<rparr> = \<lparr>R = [431540225, 713420994,
    3915893911, 218477051, 1637249678, 3855430033, 1156473613, 2139634605, 1686932611,
    1964709740, 1821090344, 1812819683, 1068084199, 3374797358, 1331186455, 1898716341],
    CRC = [1547079618, 8, 13, 21, 34, 55, 89, 144, 233, 2413331996, 2325557262, 26687,
    3827683783, 4075225062, 2360745207, 249442105], initR = [0, 0, 0, 0, 0, 0, 0, 0, 0, 0, 0, 0,
    0, 0, 0, 0], konst = 1771488570, sbuf = 1350376260, mbuf = 0, nbuf = 0\<rparr>"
  by (simp add: diffuse_def upt_rec ev)

lemma vec1_loadKey:
  "loadKey [0x65, 0x87, 0xd8, 0x8f, 0x6c, 0x32, 0x9d, 0x8a, 0xe4, 0x6b] \<lparr>R = [1, 1, 2, 3,
    5, 8, 13, 21, 34, 55, 89, 144, 233, 377, 610, 987], CRC = [0, 0, 0, 0, 0, 0, 0, 0, 0, 0, 0,
    0, 0, 0, 0, 0], initR = [0, 0, 0, 0, 0, 0, 0, 0, 0, 0, 0, 0, 0, 0, 0, 0],
    konst = 1771488570, sbuf = 0, mbuf = 0, nbuf = 0\<rparr> = \<lparr>R = [1166952387,
    713421002, 3915893914, 218477038, 1637249708, 3855430054, 1156473684, 2139634493,
    1686932586, 4207120752, 3860238886, 1812793052, 3683416608, 1002548680, 3287177184,
    2146579340], CRC = [1547079618, 8, 13, 21, 34, 55, 89, 144, 233, 2413331996, 2325557262,
    26687, 3827683783, 4075225062, 2360745207, 249442105], initR = [0, 0, 0, 0, 0, 0, 0, 0, 0,
    0, 0, 0, 0, 0, 0, 0], konst = 1771488570, sbuf = 1350376260, mbuf = 0, nbuf = 0\<rparr>"
  by (simp add: loadKey_def vec1_loadKey_words vec1_copy_extra vec1_loadKey_diffuse word_of_bytes_def byte_at_def replicate_numeral upt_2_4 Let_def ev cong: let_weak_cong prod.case_cong_weak)

lemma vec1_key:
  "Shannon (Some [0x65, 0x87, 0xd8, 0x8f, 0x6c, 0x32, 0x9d, 0x8a, 0xe4,
    0x6b]) = \<lparr>R = [1166952387, 713421002, 3915893914, 218477038, 1637249708, 3855430054,
    1156473684, 2139634493, 1686932586, 4207120752, 3860238886, 1812793052, 3683416608,
    1002548680, 3287177184, 2146579340], CRC = [1547079618, 8, 13, 21, 34, 55, 89, 144, 233,
    2413331996, 2325557262, 26687, 3827683783, 4075225062, 2360745207, 249442105],
    initR = [1166952387, 713421002, 3915893914, 218477038, 1637249708, 3855430054, 1156473684,
    2139634493, 1686932586, 4207120752, 3860238886, 1812793052, 3683416608, 1002548680,
    3287177184, 2146579340], konst = 1166952387, sbuf = 1350376260, mbuf = 0, nbuf = 0\<rparr>"
  by (simp add: Shannon_def key_def vec1_initState vec1_loadKey genKonst_def Let_def ev cong: let_weak_cong)

lemma vec1_encrypt:
  "encrypt a a (\<lparr>R = [1166952387, 713421002, 3915893914, 218477038, 1637249708, 3855430054,
    1156473684, 2139634493, 1686932586, 4207120752, 3860238886, 1812793052, 3683416608,
    1002548680, 3287177184, 2146579340], CRC = [1547079618, 8, 13, 21, 34, 55, 89, 144, 233,
    2413331996, 2325557262, 26687, 3827683783, 4075225062, 2360745207, 249442105],
    initR = [1166952387, 713421002, 3915893914, 218477038, 1637249708, 3855430054, 1156473684,
    2139634493, 1686932586, 4207120752, 3860238886, 1812793052, 3683416608, 1002548680,
    3287177184, 2146579340], konst = 1166952387, sbuf = 1350376260, mbuf = 0, nbuf = 0\<rparr>,
    h(a := [72, 101, 108, 108, 111, 32, 87, 111, 114, 108, 100])) = (\<lparr>R = [1743617487,
    1637249708, 3855430054, 1156473684, 2139634493, 1686932586, 4207120752, 3860238886,
    1812793052, 3683416608, 1002548680, 2944545448, 279253987, 2832917942, 216342962,
    1495068674], CRC = [13, 21, 34, 55, 89, 144, 233, 2413331996, 2325557262, 26687, 3827683783,
    4075225062, 2360745207, 249442105, 1048888766, 1372841420], initR = [1166952387, 713421002,
    3915893914, 218477038, 1637249708, 3855430054, 1156473684, 2139634493, 1686932586,
    4207120752, 3860238886, 1812793052, 3683416608, 1002548680, 3287177184, 2146579340],
    konst = 1166952387, sbuf = 373348638, mbuf = 6581362, nbuf = 8\<rparr>, h(a := [148, 129,
    229, 169, 95, 147, 94, 203, 108, 181, 36]))"
  by (simp add: encrypt_def encrypt_rest_def encrypt_words.simps encrypt_bytes_numeral and_not3_def and3_def word_at_def put_word_def ld_def st_def Let_def ev cong: let_weak_cong prod.case_cong_weak)

lemma vec1_finish_mix:
  "finish out (\<lparr>R = [1743617487, 1637249708, 3855430054, 1156473684, 2139634493,
    1686932586, 4207120752, 3860238886, 1812793052, 3683416608, 1002548680, 2944545448,
    279253987, 2832917942, 216342962, 1495068674], CRC = [13, 21, 34, 55, 89, 144, 233,
    2413331996, 2325557262, 26687, 3827683783, 4075225062, 2360745207, 249442105, 1048888766,
    1372841420], initR = [1166952387, 713421002, 3915893914, 218477038, 1637249708, 3855430054,
    1156473684, 2139634493, 1686932586, 4207120752, 3860238886, 1812793052, 3683416608,
    1002548680, 3287177184, 2146579340], konst = 1166952387, sbuf = 373348638, mbuf = 6581362,
    nbuf = 8\<rparr>, h) = finish_out out 0 (length (h out)) (diffuse \<lparr>R = [1599678711,
    3855430020, 1156473699, 2139634532, 1686932730, 4207120793, 1775113274, 3868210898,
    3683389983, 3756293135, 1566887246, 2618494740, 2791352061, 1542922614, 147789262,
    1205775053], CRC = [21, 34, 55, 89, 144, 233, 2413331996, 2325557262, 26687, 3827683783,
    4075225062, 2360745207, 249442105, 1048888766, 1372841420, 1370982801], initR = [1166952387,
    713421002, 3915893914, 218477038, 1637249708, 3855430054, 1156473684, 2139634493,
    1686932586, 4207120752, 3860238886, 1812793052, 3683416608, 1002548680, 3287177184,
    2146579340], konst = 1166952387, sbuf = 1308469674, mbuf = 6581362, nbuf = 0\<rparr>, h)"
  by (simp add: finish_def upt_rec Let_def ev cong: let_weak_cong)

lemma vec1_finish_diffuse:
  "diffuse \<lparr>R = [1599678711, 3855430020, 1156473699, 2139634532, 1686932730, 4207120793,
    1775113274, 3868210898, 3683389983, 3756293135, 1566887246, 2618494740, 2791352061,
    1542922614, 147789262, 1205775053], CRC = [21, 34, 55, 89, 144, 233, 2413331996, 2325557262,
    26687, 3827683783, 4075225062, 2360745207, 249442105, 1048888766, 1372841420, 1370982801],
    initR = [1166952387, 713421002, 3915893914, 218477038, 1637249708, 3855430054, 1156473684,
    2139634493, 1686932586, 4207120752, 3860238886, 1812793052, 3683416608, 1002548680,
    3287177184, 2146579340], konst = 1166952387, sbuf = 1308469674, mbuf = 6581362,
    nbuf = 0\<rparr> = \<lparr>R = [2352941717, 279898341, 3542587313, 3351695276, 2290417972,
    736673874, 1777310403, 2071968636, 2472902726, 925666599, 3444779672, 612792014, 84194544,
    970484222, 1879535441, 1487396042], CRC = [21, 34, 55, 89, 144, 233, 2413331996, 2325557262,
    26687, 3827683783, 4075225062, 2360745207, 249442105, 1048888766, 1372841420, 1370982801],
    initR = [1166952387, 713421002, 3915893914, 218477038, 1637249708, 3855430054, 1156473684,
    2139634493, 1686932586, 4207120752, 3860238886, 1812793052, 3683416608, 1002548680,
    3287177184, 2146579340], konst = 1166952387, sbuf = 2129690021, mbuf = 6581362,
    nbuf = 0\<rparr>"
  by (simp add: diffuse_def upt_rec ev)

lemma vec1_finish_out_16:
  "finish_out out 0 16 (\<lparr>R = [2352941717, 279898341, 3542587313, 3351695276, 2290417972,
    736673874, 1777310403, 2071968636, 2472902726, 925666599, 3444779672, 612792014, 84194544,
    970484222, 1879535441, 1487396042], CRC = [21, 34, 55, 89, 144, 233, 2413331996, 2325557262,
    26687, 3827683783, 4075225062, 2360745207, 249442105, 1048888766, 1372841420, 1370982801],
    initR = [1166952387, 713421002, 3915893914, 218477038, 1637249708, 3855430054, 1156473684,
    2139634493, 1686932586, 4207120752, 3860238886, 1812793052, 3683416608, 1002548680,
    3287177184, 2146579340], konst = 1166952387, sbuf = 2129690021, mbuf = 6581362,
    nbuf = 0\<rparr>, h(out := replicate 16 0)) = (\<lparr>R = [1986678369, 736673874, 1777310403, 2071968636, 2472902726, 925666599,
    3444779672, 612792014, 84194544, 970484222, 1879535441, 1487396042, 3049612070, 750526442,
    1842387687, 2173513863], CRC = [21, 34, 55, 89, 144, 233, 2413331996, 2325557262, 26687,
    3827683783, 4075225062, 2360745207, 249442105, 1048888766, 1372841420, 1370982801],
    initR = [1166952387, 713421002, 3915893914, 218477038, 1637249708, 3855430054, 1156473684,
    2139634493, 1686932586, 4207120752, 3860238886, 1812793052, 3683416608, 1002548680,
    3287177184, 2146579340], konst = 1166952387, sbuf = 1311676547, mbuf = 6581362,
    nbuf = 0\<rparr>, h(out := [67, 35, 134, 36, 243, 201, 12, 88, 121, 244, 211, 239, 131, 152,
    46, 78]))"
  by (simp add: replicate_numeral finish_out.simps put_word_def st_def Let_def ev cong: let_weak_cong)

lemma vec1_finish_out_7:
  "finish_out out 0 7 (\<lparr>R = [2352941717, 279898341, 3542587313, 3351695276, 2290417972,
    736673874, 1777310403, 2071968636, 2472902726, 925666599, 3444779672, 612792014, 84194544,
    970484222, 1879535441, 1487396042], CRC = [21, 34, 55, 89, 144, 233, 2413331996, 2325557262,
    26687, 3827683783, 4075225062, 2360745207, 249442105, 1048888766, 1372841420, 1370982801],
    initR = [1166952387, 713421002, 3915893914, 218477038, 1637249708, 3855430054, 1156473684,
    2139634493, 1686932586, 4207120752, 3860238886, 1812793052, 3683416608, 1002548680,
    3287177184, 2146579340], konst = 1166952387, sbuf = 2129690021, mbuf = 6581362,
    nbuf = 0\<rparr>, h(out := replicate 7 0)) = (\<lparr>R = [914299787, 3351695276,
    2290417972, 736673874, 1777310403, 2071968636, 2472902726, 925666599, 3444779672, 612792014,
    84194544, 970484222, 1879535441, 1487396042, 3049612070, 750526442], CRC = [21, 34, 55, 89,
    144, 233, 2413331996, 2325557262, 26687, 3827683783, 4075225062, 2360745207, 249442105,
    1048888766, 1372841420, 1370982801], initR = [1166952387, 713421002, 3915893914, 218477038,
    1637249708, 3855430054, 1156473684, 2139634493, 1686932586, 4207120752, 3860238886,
    1812793052, 3683416608, 1002548680, 3287177184, 2146579340], konst = 1166952387,
    sbuf = 1477233139, mbuf = 6581362, nbuf = 0\<rparr>, h(out := [67, 35, 134, 36, 243, 243,
    243]))"
  by (simp add: replicate_numeral finish_out.simps put_word_def st_def upt_0_3 Let_def ev cong: let_weak_cong)

text \<open>
  Claim C1. A fresh engine keyed with \<open>65 87 d8 8f 6c 32 9d 8a e4 6b\<close>, no nonce set:
  \<open>encrypt\<close> of the 11 bytes of \<open>Hello World\<close>, in place, gives the ciphertext
  \<open>94 81 e5 a9 5f 93 5e cb 6c b5 24\<close>, and \<open>finish\<close> with a 16-byte array then gives
  the tag \<open>43 23 86 24 f3 c9 0c 58 79 f4 d3 ef 83 98 2e 4e\<close>. The plaintext is the array
  at reference 0, the tag array is at reference 1.
\<close>

theorem test_vector_1:
  "(let (s, h) = encrypt 0 0 (Shannon (Some [0x65, 0x87, 0xd8, 0x8f, 0x6c, 0x32, 0x9d, 0x8a, 0xe4, 0x6b]), h0(0 := [72, 101, 108, 108, 111, 32, 87, 111, 114, 108, 100]));
        (s', h') = finish 1 (s, h(1 := replicate 16 0))
    in h 0 = [0x94, 0x81, 0xe5, 0xa9, 0x5f, 0x93, 0x5e, 0xcb, 0x6c, 0xb5, 0x24]
       \<and> h' 1 = [0x43, 0x23, 0x86, 0x24, 0xf3, 0xc9, 0x0c, 0x58, 0x79, 0xf4, 0xd3, 0xef, 0x83, 0x98, 0x2e, 0x4e])"
  by (simp add: vec1_key vec1_encrypt vec1_finish_mix vec1_finish_diffuse vec1_finish_out_16)

section \<open>The last bytes of a tag\<close>

text \<open>
  Claim C4, at a tag length that is not a multiple of 4. The engine is the one of test
  vector 1 after \<open>encrypt\<close>; \<open>finish\<close> is called with a 7-byte array. The three
  trailing tag bytes are all \<open>f3\<close>, byte 0 of the last \<open>sbuf\<close>, whose bytes 0, 1, 2
  are \<open>f3 c9 0c\<close>: the loop writes \<open>(sbuf >> (i * 8)) & 0xFF\<close> with the offset \<open>i\<close> of
  the word, a multiple of 4, where the claim has the index \<open>j\<close> of the byte.
\<close>

theorem finish_partial_word:
  "(let (s, h) = encrypt 0 0 (Shannon (Some [0x65, 0x87, 0xd8, 0x8f, 0x6c, 0x32, 0x9d, 0x8a, 0xe4, 0x6b]), h0(0 := [72, 101, 108, 108, 111, 32, 87, 111, 114, 108, 100]));
        (s', h') = finish 1 (s, h(1 := replicate 7 0))
    in h' 1 = [0x43, 0x23, 0x86, 0x24, 0xf3, 0xf3, 0xf3]
       \<and> [byte_of (sbuf s') 0, byte_of (sbuf s') 1, byte_of (sbuf s') 2] = [0xf3, 0xc9, 0x0c])"
  by (simp add: vec1_key vec1_encrypt vec1_finish_mix vec1_finish_diffuse vec1_finish_out_7
      byte_of_def)

section \<open>A separate output array\<close>

text \<open>\<open>encrypt\<close> and \<open>decrypt\<close> of test vector 1 with an output array \<open>b\<close> that is
  not the input array \<open>a\<close> and holds 11 zero bytes.\<close>

lemma vec1_encrypt_copy:
  "encrypt a b (\<lparr>R = [1166952387, 713421002, 3915893914, 218477038, 1637249708, 3855430054,
    1156473684, 2139634493, 1686932586, 4207120752, 3860238886, 1812793052, 3683416608,
    1002548680, 3287177184, 2146579340], CRC = [1547079618, 8, 13, 21, 34, 55, 89, 144, 233,
    2413331996, 2325557262, 26687, 3827683783, 4075225062, 2360745207, 249442105],
    initR = [1166952387, 713421002, 3915893914, 218477038, 1637249708, 3855430054, 1156473684,
    2139634493, 1686932586, 4207120752, 3860238886, 1812793052, 3683416608, 1002548680,
    3287177184, 2146579340], konst = 1166952387, sbuf = 1350376260, mbuf = 0, nbuf = 0\<rparr>,
    h(a := [72, 101, 108, 108, 111, 32, 87, 111, 114, 108, 100], b := [0, 0, 0, 0, 0, 0, 0, 0,
    0, 0, 0])) = (\<lparr>R = [1743617487, 1637249708, 3855430054, 1156473684, 2139634493,
    1686932586, 4207120752, 3860238886, 1812793052, 3683416608, 1002548680, 2944545448,
    279253987, 2832917942, 216342962, 1495068674], CRC = [13, 21, 34, 55, 89, 144, 233,
    2413331996, 2325557262, 26687, 3827683783, 4075225062, 2360745207, 249442105, 1048888766,
    1372841420], initR = [1166952387, 713421002, 3915893914, 218477038, 1637249708, 3855430054,
    1156473684, 2139634493, 1686932586, 4207120752, 3860238886, 1812793052, 3683416608,
    1002548680, 3287177184, 2146579340], konst = 1166952387, sbuf = 373348638, mbuf = 6581362,
    nbuf = 8\<rparr>, h(a := [72, 101, 108, 108, 111, 32, 87, 111, 114, 108, 100], b := [148,
    129, 229, 169, 95, 147, 94, 203, 30, 217, 64]))"
  if "a \<noteq> b"
  using that by (simp add: fun_upd_twist encrypt_def encrypt_rest_def encrypt_words.simps encrypt_bytes_numeral and_not3_def and3_def word_at_def put_word_def ld_def st_def Let_def ev cong: let_weak_cong prod.case_cong_weak)

lemma vec1_decrypt_copy:
  "decrypt a b (\<lparr>R = [1166952387, 713421002, 3915893914, 218477038, 1637249708, 3855430054,
    1156473684, 2139634493, 1686932586, 4207120752, 3860238886, 1812793052, 3683416608,
    1002548680, 3287177184, 2146579340], CRC = [1547079618, 8, 13, 21, 34, 55, 89, 144, 233,
    2413331996, 2325557262, 26687, 3827683783, 4075225062, 2360745207, 249442105],
    initR = [1166952387, 713421002, 3915893914, 218477038, 1637249708, 3855430054, 1156473684,
    2139634493, 1686932586, 4207120752, 3860238886, 1812793052, 3683416608, 1002548680,
    3287177184, 2146579340], konst = 1166952387, sbuf = 1350376260, mbuf = 0, nbuf = 0\<rparr>,
    h(a := [148, 129, 229, 169, 95, 147, 94, 203, 108, 181, 36], b := [0, 0, 0, 0, 0, 0, 0, 0,
    0, 0, 0])) = (\<lparr>R = [1743617487, 1637249708, 3855430054, 1156473684, 2139634493,
    1686932586, 4207120752, 3860238886, 1812793052, 3683416608, 1002548680, 2944545448,
    279253987, 2832917942, 216342962, 1495068674], CRC = [13, 21, 34, 55, 89, 144, 233,
    2413331996, 2325557262, 26687, 3827683783, 4075225062, 2360745207, 249442105, 1048888766,
    1372841420], initR = [1166952387, 713421002, 3915893914, 218477038, 1637249708, 3855430054,
    1156473684, 2139634493, 1686932586, 4207120752, 3860238886, 1812793052, 3683416608,
    1002548680, 3287177184, 2146579340], konst = 1166952387, sbuf = 373348638, mbuf = 6581362,
    nbuf = 8\<rparr>, h(a := [148, 129, 229, 169, 95, 147, 94, 203, 114, 108, 100], b := [72,
    101, 108, 108, 111, 32, 87, 111, 0, 0, 0]))"
  if "a \<noteq> b"
  using that by (simp add: fun_upd_twist decrypt_def decrypt_rest_def decrypt_words.simps decrypt_bytes_numeral and_not3_def and3_def word_at_def put_word_def ld_def st_def Let_def ev cong: let_weak_cong prod.case_cong_weak)

text \<open>
  Claim C5, at an input whose length is not a multiple of 4. In place, \<open>encrypt\<close> of
  \<open>Hello World\<close> gives \<open>94 81 e5 a9 5f 93 5e cb 6c b5 24\<close>. With a separate, zero-filled
  output array the last three output bytes are \<open>1e d9 40\<close>, the keystream alone: the byte
  loop runs \<open>output[i] ^= ...\<close> on what the output array held and never reads the input
  into it. \<open>decrypt\<close> of the ciphertext with a separate output array leaves the last
  three output bytes 0 and writes the plaintext bytes \<open>72 6c 64\<close> into the input array:
  its trailing loop runs \<open>buffer[i] ^= ...\<close>.
\<close>

theorem copy_transform_partial_word:
  "snd (encrypt 0 0 (Shannon (Some [0x65, 0x87, 0xd8, 0x8f, 0x6c, 0x32, 0x9d, 0x8a, 0xe4, 0x6b]), h0(0 := [72, 101, 108, 108, 111, 32, 87, 111, 114, 108, 100]))) 0 =
     [0x94, 0x81, 0xe5, 0xa9, 0x5f, 0x93, 0x5e, 0xcb, 0x6c, 0xb5, 0x24]
   \<and> snd (encrypt 0 1 (Shannon (Some [0x65, 0x87, 0xd8, 0x8f, 0x6c, 0x32, 0x9d, 0x8a, 0xe4, 0x6b]), h0(0 := [72, 101, 108, 108, 111, 32, 87, 111, 114, 108, 100], 1 := replicate 11 0))) 1 =
     [0x94, 0x81, 0xe5, 0xa9, 0x5f, 0x93, 0x5e, 0xcb, 0x1e, 0xd9, 0x40]
   \<and> snd (decrypt 0 1 (Shannon (Some [0x65, 0x87, 0xd8, 0x8f, 0x6c, 0x32, 0x9d, 0x8a, 0xe4, 0x6b]), h0(0 := [0x94, 0x81, 0xe5, 0xa9, 0x5f, 0x93, 0x5e, 0xcb, 0x6c, 0xb5, 0x24], 1 := replicate 11 0))) 1 =
     [72, 101, 108, 108, 111, 32, 87, 111, 0, 0, 0]
   \<and> snd (decrypt 0 1 (Shannon (Some [0x65, 0x87, 0xd8, 0x8f, 0x6c, 0x32, 0x9d, 0x8a, 0xe4, 0x6b]), h0(0 := [0x94, 0x81, 0xe5, 0xa9, 0x5f, 0x93, 0x5e, 0xcb, 0x6c, 0xb5, 0x24], 1 := replicate 11 0))) 0 =
     [0x94, 0x81, 0xe5, 0xa9, 0x5f, 0x93, 0x5e, 0xcb, 0x72, 0x6c, 0x64]"
  by (simp add: vec1_key vec1_encrypt vec1_encrypt_copy vec1_decrypt_copy replicate_numeral)

section \<open>Facts about the byte-wise transforms\<close>

lemma cycle_fields [simp]:
  "nbuf (cycle s) = nbuf s" "mbuf (cycle s) = mbuf s" "CRC (cycle s) = CRC s"
  "konst (cycle s) = konst s" "initR (cycle s) = initR s"
  by (simp_all add: cycle_def Let_def)

lemma cycle_upd [simp]:
  "cycle (s\<lparr>mbuf := m\<rparr>) = (cycle s)\<lparr>mbuf := m\<rparr>"
  "cycle (s\<lparr>nbuf := n\<rparr>) = (cycle s)\<lparr>nbuf := n\<rparr>"
  by (simp_all add: cycle_def Let_def)

lemma macFunc_fields [simp]:
  "nbuf (macFunc w s) = nbuf s" "mbuf (macFunc w s) = mbuf s" "sbuf (macFunc w s) = sbuf s"
  "konst (macFunc w s) = konst s" "initR (macFunc w s) = initR s"
  by (simp_all add: macFunc_def crcFunc_def Let_def)

lemma macFunc_upd [simp]:
  "macFunc w (s\<lparr>mbuf := m\<rparr>) = (macFunc w s)\<lparr>mbuf := m\<rparr>"
  "macFunc w (s\<lparr>nbuf := n\<rparr>) = (macFunc w s)\<lparr>nbuf := n\<rparr>"
  by (simp_all add: macFunc_def crcFunc_def Let_def)

lemma norm_idem [simp]: "norm (norm s) = norm s"
  by (simp add: norm_def)

lemma nbuf_norm [simp]: "nbuf (norm s) = nbuf s"
  by (simp add: norm_def)

lemma start_norm [simp]: "start (norm s) = start s"
  by (simp add: start_def norm_def)

lemma step_norm [simp]: "step f (norm s) b = step f s b"
  by (simp add: step_def)


lemma length_run [simp]: "length (snd (run f s bs)) = length bs"
  by (induction bs arbitrary: s) (simp_all add: split_beta Let_def)












lemma nbuf_dec_byte [simp]: "nbuf (fst (dec_byte s b)) = nbuf s - 8"
  by (simp add: dec_byte_def Let_def)




lemma shl_0 [simp]: "shl x 0 = x"
  by (simp add: shl_def)

lemma shr_0 [simp]: "shr x 0 = x"
  by (simp add: shr_def)





section \<open>Word counts\<close>






section \<open>In-place encrypt, byte by byte\<close>








lemma nbuf_set: "n \<le> 4 \<Longrightarrow> 8 * int (4 - n) \<in> {0, 8, 16, 24, 32}"
proof -
  assume "n \<le> 4"
  then consider "n = 0" | "n = 1" | "n = 2" | "n = 3" | "n = 4" by linarith
  then show ?thesis by cases simp_all
qed




section \<open>The tag and the state between words\<close>

lemma addKey_upd [simp]:
  "addKey k (s\<lparr>mbuf := m\<rparr>) = (addKey k s)\<lparr>mbuf := m\<rparr>"
  by (simp add: addKey_def)



lemma put_word_out:
  "put_word h out i t =
     h(out := (h out)[i + 3 := ucast (shr t 24 AND 0xFF), i + 2 := ucast (shr t 16 AND 0xFF),
                      i + 1 := ucast (shr t 8 AND 0xFF), i := ucast (t AND 0xFF)])"
  by (simp add: put_word_def st_def Let_def)

lemma fold_st_out:
  "fold (\<lambda>j h. st h out (f j) v) js h = h(out := fold (\<lambda>j xs. xs[f j := ucast v]) js (h out))"
  by (induction js arbitrary: h) (simp_all add: st_def)

lemma finish_out_frame:
  "snd (finish_out out i n (s, h)) = h(out := snd (finish_out out i n (s, h)) out)"
proof (induction out i n "(s, h)" arbitrary: s h rule: finish_out.induct)
  case (1 out i n s h)
  show ?case
  proof (cases "n > 0")
    case False
    then show ?thesis by (simp add: finish_out.simps)
  next
    case True
    show ?thesis
    proof (cases "n \<ge> 4")
      case False
      have e: "finish_out out i n (s, h) =
          (cycle s, fold (\<lambda>j h. st h out (i + j) (shr (sbuf (cycle s)) (int i * 8) AND 0xFF)) [0..<n] h)"
        using True False by (subst finish_out.simps) (simp add: Let_def)
      show ?thesis unfolding e snd_conv fold_st_out by simp
    next
      case ge: True
      have e: "finish_out out i n (s, h) =
          finish_out out (i + 4) (n - 4) (cycle s, put_word h out i (sbuf (cycle s)))"
        using True ge by (subst finish_out.simps) (simp add: Let_def)
      have ih: "snd (finish_out out (i + 4) (n - 4) (cycle s, put_word h out i (sbuf (cycle s)))) =
          (put_word h out i (sbuf (cycle s)))(out := snd (finish_out out (i + 4) (n - 4) (cycle s, put_word h out i (sbuf (cycle s)))) out)"
        using 1(1)[OF True refl ge] .
      show ?thesis unfolding e by (subst ih) (simp add: put_word_out)
    qed
  qed
qed









section \<open>Sequences of in-place encrypt calls\<close>


section \<open>Chunking\<close>





end
